theory Spec2Isabelle
  imports Main
begin

section \<open>Status categories of the Jira cloud client (cloud/statuscategory.go)\<close>

subsection \<open>Data model\<close>

text \<open>
  The struct \<open>StatusCategory\<close>. Go's \<open>int\<close> field is an \<open>int\<close> here: the file does no
  arithmetic on it, and the decoder below keeps it within 64 bits. A Go string is a
  sequence of bytes, as \<open>string\<close> is.
\<close>

record StatusCategory =
  Self :: string
  ID :: int
  Name :: string
  Key :: string
  ColorName :: string

text \<open>The value \<open>new(StatusCategory)\<close> points to: every field has its zero value.\<close>

definition new_StatusCategory :: StatusCategory where
  "new_StatusCategory = \<lparr>Self = [], ID = 0, Name = [], Key = [], ColorName = []\<rparr>"

text \<open>The keys of the default Jira status categories.\<close>

definition StatusCategoryComplete :: string where
  "StatusCategoryComplete = ''done''"

definition StatusCategoryInProgress :: string where
  "StatusCategoryInProgress = ''indeterminate''"

definition StatusCategoryToDo :: string where
  "StatusCategoryToDo = ''new''"

definition StatusCategoryUndefined :: string where
  "StatusCategoryUndefined = ''undefined''"

text \<open>\<open>http.MethodGet\<close> of the standard library.\<close>

definition MethodGet :: string where
  "MethodGet = ''GET''"

subsection \<open>Errors\<close>

text \<open>
  Go's \<open>error\<close> values, as far as this file meets them: the result of \<open>errors.New\<close>,
  an error value made by the transport (of a kind this file knows nothing about), and the
  API error that \<open>NewJiraError\<close> builds around a response and the error of the call.
  A nil \<open>error\<close> is \<open>None\<close> of the option type, and so is a nil \<open>*Response\<close>, a nil
  \<open>*StatusCategory\<close> and a nil slice.
\<close>

datatype ('resp, 'x) error =
    errors_New string
  | Foreign 'x
  | JiraError "'resp option" "('resp, 'x) error"

text \<open>
  Modelled from the spec: \<open>NewJiraError\<close> is declared in another file of the package,
  which is not part of the sources at hand. The spec says of it that the failure of the
  remote call is "wrapped into a structured API error that embeds the response metadata",
  and that "this error wraps the response metadata so the caller can inspect status code,
  headers, and body for diagnostics".
\<close>

definition NewJiraError :: "'resp option \<Rightarrow> ('resp, 'x) error \<Rightarrow> ('resp, 'x) error" where
  \<comment> \<open>Modelled from the spec: the API error that embeds the response metadata.\<close>
  "NewJiraError resp httpError = JiraError resp httpError"

text \<open>The response an error embeds, when it is an API error.\<close>

fun wrapped_response :: "('resp, 'x) error \<Rightarrow> 'resp option option" where
  "wrapped_response (JiraError resp httpError) = Some resp"
| "wrapped_response (errors_New msg) = None"
| "wrapped_response (Foreign x) = None"

subsection \<open>The transport\<close>

text \<open>
  The client behind \<open>s.client\<close> is a collaborator of this file: its two methods are
  parameters of the model. Each one reads and changes the world outside (\<open>'w\<close>: the
  network, the remote instance, the clock), which is passed through explicitly.

  \<^item> \<open>NewRequest ctx method urlStr body\<close> returns a request and an error.
  \<^item> \<open>Do req v\<close> returns a response and an error, and may write through the pointer
    \<open>v\<close>: the model passes the value \<open>v\<close> points to and gets back what it holds
    afterwards. \<open>Do\<close> takes an \<open>interface{}\<close>; the type \<open>'v\<close> is the type of the
    target at the call site.
\<close>

record ('ctx, 'body, 'req, 'resp, 'x, 'v, 'w) Client =
  NewRequest :: "'ctx \<Rightarrow> string \<Rightarrow> string \<Rightarrow> 'body option \<Rightarrow> 'w
                  \<Rightarrow> ('req \<times> ('resp, 'x) error option) \<times> 'w"
  Do :: "'req \<Rightarrow> 'v \<Rightarrow> 'w \<Rightarrow> ('v \<times> 'resp option \<times> ('resp, 'x) error option) \<times> 'w"

text \<open>The struct \<open>service\<close> that \<open>StatusCategoryService\<close> is defined as.\<close>

record ('ctx, 'body, 'req, 'resp, 'x, 'v, 'w) service =
  client :: "('ctx, 'body, 'req, 'resp, 'x, 'v, 'w) Client"

text \<open>
  What a call of the service has asked of the transport is kept in a log beside the
  world, one entry per call of a method of the client, in the order of the calls.
\<close>

datatype ('ctx, 'body, 'req, 'v) call =
    NewRequestCall 'ctx string string "'body option"
  | DoCall 'req 'v

record ('ctx, 'body, 'req, 'v, 'w) net =
  transport :: 'w
  calls :: "('ctx, 'body, 'req, 'v) call list"

definition client_NewRequest ::
  "('ctx, 'body, 'req, 'resp, 'x, 'v, 'w) service \<Rightarrow> 'ctx \<Rightarrow> string \<Rightarrow> string \<Rightarrow> 'body option
    \<Rightarrow> ('ctx, 'body, 'req, 'v, 'w) net
    \<Rightarrow> ('req \<times> ('resp, 'x) error option) \<times> ('ctx, 'body, 'req, 'v, 'w) net" where
  "client_NewRequest s ctx method urlStr body n =
     (let (r, w') = NewRequest (client s) ctx method urlStr body (transport n)
      in (r, \<lparr>transport = w', calls = calls n @ [NewRequestCall ctx method urlStr body]\<rparr>))"

definition client_Do ::
  "('ctx, 'body, 'req, 'resp, 'x, 'v, 'w) service \<Rightarrow> 'req \<Rightarrow> 'v
    \<Rightarrow> ('ctx, 'body, 'req, 'v, 'w) net
    \<Rightarrow> ('v \<times> 'resp option \<times> ('resp, 'x) error option) \<times> ('ctx, 'body, 'req, 'v, 'w) net" where
  "client_Do s req v n =
     (let (r, w') = Do (client s) req v (transport n)
      in (r, \<lparr>transport = w', calls = calls n @ [DoCall req v]\<rparr>))"

fun Do_calls :: "('ctx, 'body, 'req, 'v) call list \<Rightarrow> ('req \<times> 'v) list" where
  "Do_calls [] = []"
| "Do_calls (NewRequestCall ctx method urlStr body # cs) = Do_calls cs"
| "Do_calls (DoCall req v # cs) = (req, v) # Do_calls cs"

subsection \<open>The two operations\<close>

definition GetList ::
  "('ctx, 'body, 'req, 'resp, 'x, StatusCategory list option, 'w) service \<Rightarrow> 'ctx
    \<Rightarrow> ('ctx, 'body, 'req, StatusCategory list option, 'w) net
    \<Rightarrow> (StatusCategory list option \<times> 'resp option \<times> ('resp, 'x) error option)
        \<times> ('ctx, 'body, 'req, StatusCategory list option, 'w) net" where
  "GetList s ctx n =
     (let apiEndpoint = ''/rest/api/3/statuscategory'';
          ((req, err), n1) = client_NewRequest s ctx MethodGet apiEndpoint None n
      in case err of
           Some e \<Rightarrow> ((None, None, Some e), n1)
         | None \<Rightarrow>
             (let statusCategories = None;
                  ((statusCategories', resp, err'), n2) = client_Do s req statusCategories n1
              in case err' of
                   Some e \<Rightarrow> ((None, resp, Some (NewJiraError resp e)), n2)
                 | None \<Rightarrow> ((statusCategories', resp, None), n2)))"

definition Get ::
  "('ctx, 'body, 'req, 'resp, 'x, StatusCategory, 'w) service \<Rightarrow> 'ctx \<Rightarrow> string
    \<Rightarrow> ('ctx, 'body, 'req, StatusCategory, 'w) net
    \<Rightarrow> (StatusCategory option \<times> 'resp option \<times> ('resp, 'x) error option)
        \<times> ('ctx, 'body, 'req, StatusCategory, 'w) net" where
  "Get s ctx statusCategoryID n =
     (if statusCategoryID = [] then
        ((None, None, Some (errors_New ''jira: not status category set'')), n)
      else
        (let apiEndpoint = ''/rest/api/3/statuscategory/'' @ statusCategoryID;
             ((req, err), n1) = client_NewRequest s ctx MethodGet apiEndpoint None n
         in case err of
              Some e \<Rightarrow> ((None, None, Some e), n1)
            | None \<Rightarrow>
                (let statusCategory = new_StatusCategory;
                     ((statusCategory', resp, err'), n2) = client_Do s req statusCategory n1
                 in case err' of
                      Some e \<Rightarrow> ((None, resp, Some (NewJiraError resp e)), n2)
                    | None \<Rightarrow> ((Some statusCategory', resp, None), n2))))"

subsection \<open>Stand-ins for the transport\<close>

text \<open>
  Modelled from the spec: the client's \<open>NewRequest\<close> and \<open>Do\<close> are declared in another
  file of the package, which is not part of the sources at hand. The spec asks of the
  transport "a function taking (context, HTTP method, path, optional request body)
  returning a preparable request, or an error; a function executing a prepared request
  and deserializing the success body into a caller-supplied target, returning response
  metadata and an error that is non-nil exactly when the call failed (network fault or
  non-2xx status)", and wants the two operations "tested against a stand-in
  implementation without network access". The stand-in below has a request that is the
  pair of the method and the path (or nil), a response that is the HTTP status, and a
  world that counts the requests it has executed. \<open>refusal\<close> is the error of
  \<open>NewRequest\<close>, if it is to fail; \<open>status\<close> is the status the remote instance
  answers with; \<open>decode\<close> is what deserializing the body does to the target.
\<close>

definition stub_NewRequest ::
  "(nat, unit) error option \<Rightarrow> unit \<Rightarrow> string \<Rightarrow> string \<Rightarrow> unit option \<Rightarrow> nat
    \<Rightarrow> ((string \<times> string) option \<times> (nat, unit) error option) \<times> nat" where
  \<comment> \<open>Modelled from the spec: a stand-in for the request builder of the transport.\<close>
  "stub_NewRequest refusal ctx method urlStr body w =
     (case refusal of
        Some e \<Rightarrow> ((None, Some e), w)
      | None \<Rightarrow> ((Some (method, urlStr), None), w))"

definition stub_Do ::
  "nat \<Rightarrow> ('v \<Rightarrow> 'v option) \<Rightarrow> (string \<times> string) option \<Rightarrow> 'v \<Rightarrow> nat
    \<Rightarrow> ('v \<times> nat option \<times> (nat, unit) error option) \<times> nat" where
  \<comment> \<open>Modelled from the spec: a stand-in for the request executor of the transport.\<close>
  "stub_Do status decode req v w =
     (if 300 \<le> status then ((v, Some status, Some (Foreign ())), Suc w)
      else case decode v of
             None \<Rightarrow> ((v, Some status, Some (errors_New ''cannot decode the body'')), Suc w)
           | Some v' \<Rightarrow> ((v', Some status, None), Suc w))"

definition stub_service ::
  "(nat, unit) error option \<Rightarrow> nat \<Rightarrow> ('v \<Rightarrow> 'v option)
    \<Rightarrow> (unit, unit, (string \<times> string) option, nat, unit, 'v, nat) service" where
  \<comment> \<open>Modelled from the spec: a service over the stand-in transport.\<close>
  "stub_service refusal status decode =
     \<lparr>client = \<lparr>NewRequest = stub_NewRequest refusal, Do = stub_Do status decode\<rparr>\<rparr>"

definition idle :: "(unit, unit, (string \<times> string) option, 'v, nat) net" where
  "idle = \<lparr>transport = 0, calls = []\<rparr>"

subsection \<open>Deserializing a status category\<close>

text \<open>
  Modelled from the spec: the body is deserialized inside the client's \<open>Do\<close>, by the
  JSON decoder of the standard library, neither of them part of the sources at hand. The
  spec gives the "JSON field mapping (exact names, case-sensitive): \<open>self\<close>, \<open>id\<close>,
  \<open>name\<close>, \<open>key\<close>, \<open>colorName\<close>", which are the \<open>json\<close> tags of the struct in the
  source. A body is a JSON value with whole numbers; a member with another name is
  skipped, \<open>null\<close> leaves the target as it is, and a value of the wrong kind, or a
  number that does not fit Go's \<open>int\<close>, is an error (\<open>None\<close>). An array is decoded
  into a slice element by element, each element starting from the zero value.
\<close>

datatype json =
    JNull
  | JBool bool
  | JNumber int
  | JString string
  | JArray "json list"
  | JObject "(string \<times> json) list"

fun Unmarshal_string :: "json \<Rightarrow> string \<Rightarrow> string option" where
  \<comment> \<open>Modelled from the spec: decoding a JSON value into a string field.\<close>
  "Unmarshal_string (JString x) old = Some x"
| "Unmarshal_string JNull old = Some old"
| "Unmarshal_string (JBool b) old = None"
| "Unmarshal_string (JNumber i) old = None"
| "Unmarshal_string (JArray js) old = None"
| "Unmarshal_string (JObject ms) old = None"

fun Unmarshal_int :: "json \<Rightarrow> int \<Rightarrow> int option" where
  \<comment> \<open>Modelled from the spec: decoding a JSON value into an int field.\<close>
  "Unmarshal_int (JNumber i) old = (if - (2 ^ 63) \<le> i \<and> i < 2 ^ 63 then Some i else None)"
| "Unmarshal_int JNull old = Some old"
| "Unmarshal_int (JBool b) old = None"
| "Unmarshal_int (JString x) old = None"
| "Unmarshal_int (JArray js) old = None"
| "Unmarshal_int (JObject ms) old = None"

definition Unmarshal_member :: "string \<times> json \<Rightarrow> StatusCategory \<Rightarrow> StatusCategory option" where
  \<comment> \<open>Modelled from the spec: the case-sensitive field mapping.\<close>
  "Unmarshal_member m v =
     (if fst m = ''self'' then map_option (\<lambda>x. v\<lparr>Self := x\<rparr>) (Unmarshal_string (snd m) (Self v))
      else if fst m = ''id'' then map_option (\<lambda>x. v\<lparr>ID := x\<rparr>) (Unmarshal_int (snd m) (ID v))
      else if fst m = ''name'' then map_option (\<lambda>x. v\<lparr>Name := x\<rparr>) (Unmarshal_string (snd m) (Name v))
      else if fst m = ''key'' then map_option (\<lambda>x. v\<lparr>Key := x\<rparr>) (Unmarshal_string (snd m) (Key v))
      else if fst m = ''colorName'' then
        map_option (\<lambda>x. v\<lparr>ColorName := x\<rparr>) (Unmarshal_string (snd m) (ColorName v))
      else Some v)"

fun Unmarshal_members :: "(string \<times> json) list \<Rightarrow> StatusCategory \<Rightarrow> StatusCategory option" where
  \<comment> \<open>Modelled from the spec: decoding the members of an object in their order.\<close>
  "Unmarshal_members [] v = Some v"
| "Unmarshal_members (m # ms) v =
     (case Unmarshal_member m v of
        None \<Rightarrow> None
      | Some v' \<Rightarrow> Unmarshal_members ms v')"

fun Unmarshal_StatusCategory :: "json \<Rightarrow> StatusCategory \<Rightarrow> StatusCategory option" where
  \<comment> \<open>Modelled from the spec: decoding a JSON value into a status category.\<close>
  "Unmarshal_StatusCategory (JObject ms) v = Unmarshal_members ms v"
| "Unmarshal_StatusCategory JNull v = Some v"
| "Unmarshal_StatusCategory (JBool b) v = None"
| "Unmarshal_StatusCategory (JNumber i) v = None"
| "Unmarshal_StatusCategory (JString x) v = None"
| "Unmarshal_StatusCategory (JArray js) v = None"

fun Unmarshal_elements :: "json list \<Rightarrow> StatusCategory list option" where
  \<comment> \<open>Modelled from the spec: decoding the elements of an array in their order.\<close>
  "Unmarshal_elements [] = Some []"
| "Unmarshal_elements (j # js) =
     (case Unmarshal_StatusCategory j new_StatusCategory of
        None \<Rightarrow> None
      | Some x \<Rightarrow> map_option ((#) x) (Unmarshal_elements js))"

fun Unmarshal_StatusCategories ::
  "json \<Rightarrow> StatusCategory list option \<Rightarrow> StatusCategory list option option" where
  \<comment> \<open>Modelled from the spec: decoding a JSON value into a slice of status categories.\<close>
  "Unmarshal_StatusCategories (JArray js) v = map_option Some (Unmarshal_elements js)"
| "Unmarshal_StatusCategories JNull v = Some None"
| "Unmarshal_StatusCategories (JBool b) v = None"
| "Unmarshal_StatusCategories (JNumber i) v = None"
| "Unmarshal_StatusCategories (JString x) v = None"
| "Unmarshal_StatusCategories (JObject ms) v = None"

text \<open>
  The body \<^verbatim>\<open>[{"self":"http://x/1","id":1,"name":"To Do","key":"new","colorName":"blue-gray"}]\<close>.
\<close>

definition to_do_body :: json where
  "to_do_body =
     JArray [JObject [(''self'', JString ''http://x/1''), (''id'', JNumber 1),
       (''name'', JString ''To Do''), (''key'', JString ''new''),
       (''colorName'', JString ''blue-gray'')]]"

section \<open>Properties\<close>

subsection \<open>What each operation does with the answers of the transport\<close>

lemma GetList_refused:
  assumes "NewRequest (client s) ctx MethodGet ''/rest/api/3/statuscategory'' None (transport n)
             = ((req, Some e), w)"
  shows "GetList s ctx n =
           ((None, None, Some e),
            \<lparr>transport = w,
             calls = calls n @ [NewRequestCall ctx MethodGet ''/rest/api/3/statuscategory'' None]\<rparr>)"
  using assms by (simp add: GetList_def client_NewRequest_def)

lemma GetList_executed:
  assumes "NewRequest (client s) ctx MethodGet ''/rest/api/3/statuscategory'' None (transport n)
             = ((req, None), w1)"
    and "Do (client s) req None w1 = ((v, resp, err), w2)"
  shows "GetList s ctx n =
           ((case err of
               Some e \<Rightarrow> (None, resp, Some (NewJiraError resp e))
             | None \<Rightarrow> (v, resp, None)),
            \<lparr>transport = w2,
             calls = calls n @ [NewRequestCall ctx MethodGet ''/rest/api/3/statuscategory'' None,
                                DoCall req None]\<rparr>)"
  using assms by (simp add: GetList_def client_NewRequest_def client_Do_def split: option.splits)

lemma Get_refused:
  assumes "statusCategoryID \<noteq> []"
    and "NewRequest (client s) ctx MethodGet (''/rest/api/3/statuscategory/'' @ statusCategoryID)
           None (transport n) = ((req, Some e), w)"
  shows "Get s ctx statusCategoryID n =
           ((None, None, Some e),
            \<lparr>transport = w,
             calls = calls n @ [NewRequestCall ctx MethodGet
                                  (''/rest/api/3/statuscategory/'' @ statusCategoryID) None]\<rparr>)"
  using assms by (simp add: Get_def client_NewRequest_def)

lemma Get_executed:
  assumes "statusCategoryID \<noteq> []"
    and "NewRequest (client s) ctx MethodGet (''/rest/api/3/statuscategory/'' @ statusCategoryID)
           None (transport n) = ((req, None), w1)"
    and "Do (client s) req new_StatusCategory w1 = ((v, resp, err), w2)"
  shows "Get s ctx statusCategoryID n =
           ((case err of
               Some e \<Rightarrow> (None, resp, Some (NewJiraError resp e))
             | None \<Rightarrow> (Some v, resp, None)),
            \<lparr>transport = w2,
             calls = calls n @ [NewRequestCall ctx MethodGet
                                  (''/rest/api/3/statuscategory/'' @ statusCategoryID) None,
                                DoCall req new_StatusCategory]\<rparr>)"
  using assms by (simp add: Get_def client_NewRequest_def client_Do_def split: option.splits)

lemma error_not_its_own_wrapper: "JiraError resp e \<noteq> e"
  by (induction e arbitrary: resp) auto

subsection \<open>The claims\<close>

text \<open>
  C7. The four exposed key constants are \<open>done\<close> (complete), \<open>indeterminate\<close> (in
  progress), \<open>new\<close> (to do) and \<open>undefined\<close>; they differ from each other, so that the
  key of a fetched category matches at most one of them.
\<close>

theorem well_known_keys:
  "StatusCategoryComplete = ''done'' \<and> StatusCategoryInProgress = ''indeterminate''
   \<and> StatusCategoryToDo = ''new'' \<and> StatusCategoryUndefined = ''undefined''
   \<and> distinct [StatusCategoryComplete, StatusCategoryInProgress, StatusCategoryToDo,
        StatusCategoryUndefined]"
  by (simp add: StatusCategoryComplete_def StatusCategoryInProgress_def
      StatusCategoryToDo_def StatusCategoryUndefined_def)

text \<open>
  C1. For the empty identifier, \<open>Get\<close> returns an error made by \<open>errors.New\<close> with a nil
  status category and a nil response, and the world and the log of the calls to the
  transport are the ones it was given: neither \<open>NewRequest\<close> nor \<open>Do\<close> has been called.
\<close>

theorem Get_empty_identifier:
  "\<exists>msg. Get s ctx [] n = ((None, None, Some (errors_New msg)), n)"
  by (simp add: Get_def)

text \<open>
  C2, as the spec has it: the error of \<open>Get\<close> for the empty identifier carries the
  message \<open>no status category identifier set\<close>. It does not: the stand-in service, asked
  for the empty identifier, gets another message.
\<close>

theorem Get_empty_message_counterexample:
  "snd (snd (fst (Get (stub_service None 200 Some) () [] idle)))
     \<noteq> Some (errors_New ''no status category identifier set'')"
  by (simp add: Get_def)

text \<open>
  C2, amended: the error of \<open>Get\<close> for the empty identifier is made by \<open>errors.New\<close> and
  carries the message \<open>jira: not status category set\<close>, which names the status category
  as what is missing.
\<close>

theorem Get_empty_message:
  "snd (snd (fst (Get s ctx [] n))) = Some (errors_New ''jira: not status category set'')"
  by (simp add: Get_def)

text \<open>
  C3, as the spec has it: for every non-empty identifier \<open>Get\<close> issues exactly one GET
  request. When the transport cannot build the request, \<open>Get\<close> returns before \<open>Do\<close>: for
  the identifier \<open>done\<close> and a transport that refuses to build requests, the number of
  requests handed to \<open>Do\<close> is not one.
\<close>

theorem Get_refused_counterexample:
  "\<not> length (Do_calls (calls (snd
       (Get (stub_service (Some (errors_New ''no base URL'')) 200 Some) () ''done'' idle)))) = 1"
  by (simp add: Get_def client_NewRequest_def stub_service_def stub_NewRequest_def idle_def)

text \<open>
  C3, amended: for every non-empty identifier, \<open>Get\<close> calls \<open>NewRequest\<close> exactly once,
  for the method GET, no body and the path \<open>/rest/api/3/statuscategory/\<close> followed by the
  characters of the identifier as they are. When \<open>NewRequest\<close> returns no error, \<open>Get\<close>
  then calls \<open>Do\<close> exactly once, on the request that \<open>NewRequest\<close> returned and a fresh
  \<open>StatusCategory\<close>; when \<open>NewRequest\<close> returns an error, \<open>Do\<close> is not called. There is
  no other call to the transport.
\<close>

theorem Get_one_GET_request:
  assumes "statusCategoryID \<noteq> []"
    and "NewRequest (client s) ctx MethodGet (''/rest/api/3/statuscategory/'' @ statusCategoryID)
           None (transport n) = ((req, err), w)"
  shows "calls (snd (Get s ctx statusCategoryID n)) =
           calls n
           @ NewRequestCall ctx ''GET'' (''/rest/api/3/statuscategory/'' @ statusCategoryID) None
             # (case err of None \<Rightarrow> [DoCall req new_StatusCategory] | Some e \<Rightarrow> [])"
proof (cases err)
  case None
  obtain v resp err' w' where "Do (client s) req new_StatusCategory w = ((v, resp, err'), w')"
    by (metis prod.exhaust)
  with assms None show ?thesis
    by (simp add: Get_executed MethodGet_def)
next
  case (Some e)
  with assms show ?thesis
    by (simp add: Get_refused MethodGet_def)
qed

theorem Get_one_GET_request_witness:
  "calls (snd (Get (stub_service None 200 Some) () ''new'' idle)) =
     [NewRequestCall () ''GET'' ''/rest/api/3/statuscategory/new'' None,
      DoCall (Some (''GET'', ''/rest/api/3/statuscategory/new'')) new_StatusCategory]"
  using Get_one_GET_request [where statusCategoryID = "''new''"
      and s = "stub_service None 200 Some" and ctx = "()" and n = idle
      and req = "Some (''GET'', ''/rest/api/3/statuscategory/new'')" and err = None and w = 0]
  by (simp add: stub_service_def stub_NewRequest_def idle_def MethodGet_def)

text \<open>
  C4, as the spec has it: every call to \<open>GetList\<close> issues exactly one GET request. When
  the transport cannot build the request, \<open>GetList\<close> returns before \<open>Do\<close>: with a
  transport that refuses to build requests, the number of requests handed to \<open>Do\<close> is
  not one.
\<close>

theorem GetList_refused_counterexample:
  "\<not> length (Do_calls (calls (snd
       (GetList (stub_service (Some (errors_New ''no base URL'')) 200 Some) () idle)))) = 1"
  by (simp add: GetList_def client_NewRequest_def stub_service_def stub_NewRequest_def idle_def)

text \<open>
  C4, amended: every call to \<open>GetList\<close> calls \<open>NewRequest\<close> exactly once, for the method
  GET, the fixed path \<open>/rest/api/3/statuscategory\<close> and no body, whatever the service,
  the context and the state of the world. When \<open>NewRequest\<close> returns no error, \<open>GetList\<close>
  then calls \<open>Do\<close> exactly once, on the request that \<open>NewRequest\<close> returned and a nil
  slice; when \<open>NewRequest\<close> returns an error, \<open>Do\<close> is not called. There is no other
  call to the transport.
\<close>

theorem GetList_one_GET_request:
  assumes "NewRequest (client s) ctx MethodGet ''/rest/api/3/statuscategory'' None (transport n)
             = ((req, err), w)"
  shows "calls (snd (GetList s ctx n)) =
           calls n
           @ NewRequestCall ctx ''GET'' ''/rest/api/3/statuscategory'' None
             # (case err of None \<Rightarrow> [DoCall req None] | Some e \<Rightarrow> [])"
proof (cases err)
  case None
  obtain v resp err' w' where "Do (client s) req None w = ((v, resp, err'), w')"
    by (metis prod.exhaust)
  with assms None show ?thesis
    by (simp add: GetList_executed MethodGet_def)
next
  case (Some e)
  with assms show ?thesis
    by (simp add: GetList_refused MethodGet_def)
qed

theorem GetList_one_GET_request_witness:
  "calls (snd (GetList (stub_service None 200 Some) () idle)) =
     [NewRequestCall () ''GET'' ''/rest/api/3/statuscategory'' None,
      DoCall (Some (''GET'', ''/rest/api/3/statuscategory'')) None]"
  using GetList_one_GET_request [where s = "stub_service None 200 Some" and ctx = "()"
      and n = idle and req = "Some (''GET'', ''/rest/api/3/statuscategory'')" and err = None
      and w = 0]
  by (simp add: stub_service_def stub_NewRequest_def idle_def MethodGet_def)

text \<open>
  C5. When \<open>Do\<close> returns an error (the request had been built), \<open>GetList\<close> returns a nil
  slice and \<open>Get\<close> a nil pointer, each with the response that \<open>Do\<close> returned and the
  API error that \<open>NewJiraError\<close> makes of that response and the error of \<open>Do\<close>: an
  error that is not nil and embeds the response.
\<close>

theorem Do_failure_is_API_error:
  "(NewRequest (client sl) ctxl MethodGet ''/rest/api/3/statuscategory'' None (transport nl)
        = ((reql, None), wl)
      \<and> Do (client sl) reql None wl = ((vl, respl, Some el), wl')
    \<longrightarrow> fst (GetList sl ctxl nl) = (None, respl, Some (NewJiraError respl el))
        \<and> wrapped_response (NewJiraError respl el) = Some respl)
   \<and> (statusCategoryID \<noteq> []
      \<and> NewRequest (client s) ctx MethodGet (''/rest/api/3/statuscategory/'' @ statusCategoryID)
          None (transport n) = ((req, None), w)
      \<and> Do (client s) req new_StatusCategory w = ((v, resp, Some e), w')
    \<longrightarrow> fst (Get s ctx statusCategoryID n) = (None, resp, Some (NewJiraError resp e))
        \<and> wrapped_response (NewJiraError resp e) = Some resp)"
  by (simp add: GetList_executed Get_executed NewJiraError_def)

theorem Do_failure_is_API_error_witness:
  "fst (GetList (stub_service None 503 Some) () idle)
     = (None, Some 503, Some (NewJiraError (Some 503) (Foreign ())))
   \<and> fst (Get (stub_service None 404 Some) () ''7'' idle)
     = (None, Some 404, Some (NewJiraError (Some 404) (Foreign ())))"
  using Do_failure_is_API_error [where sl = "stub_service None 503 Some" and ctxl = "()"
      and nl = idle and reql = "Some (''GET'', ''/rest/api/3/statuscategory'')" and wl = 0
      and vl = None and respl = "Some 503" and el = "Foreign ()" and wl' = 1
      and statusCategoryID = "''7''" and s = "stub_service None 404 Some" and ctx = "()"
      and n = idle and req = "Some (''GET'', ''/rest/api/3/statuscategory/7'')" and w = 0
      and v = new_StatusCategory and resp = "Some 404" and e = "Foreign ()" and w' = 1]
  by (simp add: stub_service_def stub_NewRequest_def stub_Do_def idle_def MethodGet_def)

text \<open>
  C6. When \<open>NewRequest\<close> returns an error, \<open>GetList\<close> and \<open>Get\<close> (for a non-empty
  identifier) return that very error, with a nil value and a nil response; the error
  is not the API error that \<open>NewJiraError\<close> would make of it and any response.
\<close>

theorem NewRequest_failure_is_propagated:
  "(NewRequest (client sl) ctxl MethodGet ''/rest/api/3/statuscategory'' None (transport nl)
        = ((reql, Some el), wl)
    \<longrightarrow> fst (GetList sl ctxl nl) = (None, None, Some el)
        \<and> snd (snd (fst (GetList sl ctxl nl))) \<noteq> Some (NewJiraError rl el))
   \<and> (statusCategoryID \<noteq> []
      \<and> NewRequest (client s) ctx MethodGet (''/rest/api/3/statuscategory/'' @ statusCategoryID)
          None (transport n) = ((req, Some e), w)
    \<longrightarrow> fst (Get s ctx statusCategoryID n) = (None, None, Some e)
        \<and> snd (snd (fst (Get s ctx statusCategoryID n))) \<noteq> Some (NewJiraError r e))"
  using error_not_its_own_wrapper [of rl el] error_not_its_own_wrapper [of r e]
  by (auto simp: GetList_refused Get_refused NewJiraError_def)

theorem NewRequest_failure_is_propagated_witness:
  "fst (GetList (stub_service (Some (errors_New ''context canceled'')) 200 Some) () idle)
     = (None, None, Some (errors_New ''context canceled''))
   \<and> fst (Get (stub_service (Some (Foreign ())) 200 Some) () ''done'' idle)
     = (None, None, Some (Foreign ()))"
  using NewRequest_failure_is_propagated
      [where sl = "stub_service (Some (errors_New ''context canceled'')) 200 Some"
      and ctxl = "()" and nl = idle and reql = None and el = "errors_New ''context canceled''"
      and wl = 0 and statusCategoryID = "''done''"
      and s = "stub_service (Some (Foreign ())) 200 Some" and ctx = "()" and n = idle
      and req = None and e = "Foreign ()" and w = 0]
  by (simp add: stub_service_def stub_NewRequest_def idle_def MethodGet_def)

text \<open>
  C8. When the request is built and \<open>Do\<close> returns no error, having deserialized the body
  \<^verbatim>\<open>[{"self":"http://x/1","id":1,"name":"To Do","key":"new","colorName":"blue-gray"}]\<close>
  into the target by the field mapping of the struct, \<open>GetList\<close> returns a slice of one
  status category, whose fields are the members of the object, and the response of \<open>Do\<close>.
\<close>

theorem GetList_to_do_body:
  assumes "NewRequest (client s) ctx MethodGet ''/rest/api/3/statuscategory'' None (transport n)
             = ((req, None), w1)"
    and "Do (client s) req None w1 = ((v, resp, None), w2)"
    and "Unmarshal_StatusCategories to_do_body None = Some v"
  shows "fst (GetList s ctx n) =
           (Some [\<lparr>Self = ''http://x/1'', ID = 1, Name = ''To Do'', Key = ''new'',
                   ColorName = ''blue-gray''\<rparr>], resp, None)"
proof -
  have "Unmarshal_StatusCategories to_do_body None =
          Some (Some [\<lparr>Self = ''http://x/1'', ID = 1, Name = ''To Do'', Key = ''new'',
                        ColorName = ''blue-gray''\<rparr>])"
    by (simp add: to_do_body_def Unmarshal_member_def new_StatusCategory_def)
  with assms(3) have "v = Some [\<lparr>Self = ''http://x/1'', ID = 1, Name = ''To Do'', Key = ''new'',
                                  ColorName = ''blue-gray''\<rparr>]"
    by simp
  with assms(1,2) show ?thesis
    by (simp add: GetList_executed)
qed

theorem GetList_to_do_body_witness:
  "fst (GetList (stub_service None 200 (Unmarshal_StatusCategories to_do_body)) () idle) =
     (Some [\<lparr>Self = ''http://x/1'', ID = 1, Name = ''To Do'', Key = ''new'',
             ColorName = ''blue-gray''\<rparr>], Some 200, None)"
proof -
  have decoded: "Unmarshal_StatusCategories to_do_body None =
          Some (Some [\<lparr>Self = ''http://x/1'', ID = 1, Name = ''To Do'', Key = ''new'',
                        ColorName = ''blue-gray''\<rparr>])"
    by (simp add: to_do_body_def Unmarshal_member_def new_StatusCategory_def)
  show ?thesis
    using decoded GetList_to_do_body
      [where s = "stub_service None 200 (Unmarshal_StatusCategories to_do_body)" and ctx = "()"
        and n = idle and req = "Some (''GET'', ''/rest/api/3/statuscategory'')" and ?w1.0 = 0
        and v = "Some [\<lparr>Self = ''http://x/1'', ID = 1, Name = ''To Do'', Key = ''new'',
                         ColorName = ''blue-gray''\<rparr>]"
        and resp = "Some 200" and ?w2.0 = 1]
    by (simp add: stub_service_def stub_NewRequest_def stub_Do_def idle_def MethodGet_def)
qed

text \<open>
  C9. Whenever \<open>Get\<close> returns a nil error, its status category is not nil: it is the
  struct allocated before \<open>Do\<close> was called, holding what \<open>Do\<close> left in it.
\<close>

theorem Get_nil_error_has_result:
  assumes "Get s ctx statusCategoryID n = ((v, resp, None), n')"
  shows "v \<noteq> None
         \<and> (\<exists>req w. v = Some (fst (fst (Do (client s) req new_StatusCategory w))))"
  using assms
  by (auto simp: Get_def client_NewRequest_def client_Do_def Let_def
      split: if_splits prod.splits option.splits) (metis fst_conv)+

theorem Get_nil_error_has_result_witness:
  "Get (stub_service None 200 Some) () ''done'' idle =
     ((Some new_StatusCategory, Some 200, None),
      \<lparr>transport = 1,
       calls = [NewRequestCall () ''GET'' ''/rest/api/3/statuscategory/done'' None,
                DoCall (Some (''GET'', ''/rest/api/3/statuscategory/done'')) new_StatusCategory]\<rparr>)
   \<and> Some new_StatusCategory \<noteq> None"
proof -
  have run: "Get (stub_service None 200 Some) () ''done'' idle =
     ((Some new_StatusCategory, Some 200, None),
      \<lparr>transport = 1,
       calls = [NewRequestCall () ''GET'' ''/rest/api/3/statuscategory/done'' None,
                DoCall (Some (''GET'', ''/rest/api/3/statuscategory/done'')) new_StatusCategory]\<rparr>)"
    by (simp add: Get_def client_NewRequest_def client_Do_def stub_service_def
        stub_NewRequest_def stub_Do_def idle_def MethodGet_def Let_def)
  from Get_nil_error_has_result [OF run] run show ?thesis
    by simp
qed

text \<open>
  C10. When \<open>Do\<close> returns an error (the request had been built), the response that
  \<open>GetList\<close> and \<open>Get\<close> return as their second result is the response of \<open>Do\<close>, and it
  is the response that the error they return embeds.
\<close>

theorem failed_response_returned_twice:
  "(NewRequest (client sl) ctxl MethodGet ''/rest/api/3/statuscategory'' None (transport nl)
        = ((reql, None), wl)
      \<and> Do (client sl) reql None wl = ((vl, respl, Some el), wl')
    \<longrightarrow> fst (snd (fst (GetList sl ctxl nl))) = respl
        \<and> map_option wrapped_response (snd (snd (fst (GetList sl ctxl nl))))
            = Some (Some (fst (snd (fst (GetList sl ctxl nl))))))
   \<and> (statusCategoryID \<noteq> []
      \<and> NewRequest (client s) ctx MethodGet (''/rest/api/3/statuscategory/'' @ statusCategoryID)
          None (transport n) = ((req, None), w)
      \<and> Do (client s) req new_StatusCategory w = ((v, resp, Some e), w')
    \<longrightarrow> fst (snd (fst (Get s ctx statusCategoryID n))) = resp
        \<and> map_option wrapped_response (snd (snd (fst (Get s ctx statusCategoryID n))))
            = Some (Some (fst (snd (fst (Get s ctx statusCategoryID n))))))"
  by (simp add: GetList_executed Get_executed NewJiraError_def)

theorem failed_response_returned_twice_witness:
  "map_option wrapped_response (snd (snd (fst (GetList (stub_service None 500 Some) () idle))))
     = Some (Some (Some 500))
   \<and> fst (snd (fst (GetList (stub_service None 500 Some) () idle))) = Some 500
   \<and> map_option wrapped_response
       (snd (snd (fst (Get (stub_service None 301 Some) () ''undefined'' idle))))
     = Some (Some (Some 301))
   \<and> fst (snd (fst (Get (stub_service None 301 Some) () ''undefined'' idle))) = Some 301"
  using failed_response_returned_twice [where sl = "stub_service None 500 Some" and ctxl = "()"
      and nl = idle and reql = "Some (''GET'', ''/rest/api/3/statuscategory'')" and wl = 0
      and vl = None and respl = "Some 500" and el = "Foreign ()" and wl' = 1
      and statusCategoryID = "''undefined''" and s = "stub_service None 301 Some" and ctx = "()"
      and n = idle and req = "Some (''GET'', ''/rest/api/3/statuscategory/undefined'')"
      and w = 0 and v = new_StatusCategory and resp = "Some 301" and e = "Foreign ()"
      and w' = 1]
  by (simp add: GetList_def Get_def client_NewRequest_def client_Do_def Let_def
      stub_service_def stub_NewRequest_def stub_Do_def idle_def MethodGet_def)

end
